theory Spec2Isabelle
  imports Main
begin

section \<open>JavaScript values\<close>

text \<open>
  Response bodies reach the client as decoded JSON (or as the raw text when the body is
  not JSON), and the code inspects them dynamically (\<^verbatim>\<open>typeof\<close>, truthiness,
  \<^verbatim>\<open>Array.isArray\<close>, property reads). They are modelled by a datatype of JavaScript
  values. Numbers are the integers (status codes, counters, identifiers); strings are lists
  of code units, restricted to the 8-bit range of \<^typ>\<open>char\<close>; an object is the list of its
  own properties in enumeration order, with distinct keys.
\<close>

datatype jsval =
    JUndefined
  | JNull
  | JBool bool
  | JNum int
  | JStr string
  | JArr "jsval list"
  | JObj "(string \<times> jsval) list"

text \<open>Truthiness (\<^verbatim>\<open>ToBoolean\<close>).\<close>

fun truthy :: "jsval \<Rightarrow> bool" where
  "truthy JUndefined = False"
| "truthy JNull = False"
| "truthy (JBool b) = b"
| "truthy (JNum n) = (n \<noteq> 0)"
| "truthy (JStr s) = (s \<noteq> [])"
| "truthy (JArr xs) = True"
| "truthy (JObj kvs) = True"

fun nullish :: "jsval \<Rightarrow> bool" where
  "nullish JUndefined = True"
| "nullish JNull = True"
| "nullish v = False"

text \<open>
  \<^verbatim>\<open>v.k\<close> for a value that is neither \<^verbatim>\<open>null\<close> nor \<^verbatim>\<open>undefined\<close>, and a name
  \<open>k\<close> that no built-in prototype defines (the code reads \<^verbatim>\<open>message\<close>, \<^verbatim>\<open>errors\<close>,
  \<^verbatim>\<open>created_at\<close>, \<^verbatim>\<open>id\<close>, \<^verbatim>\<open>name\<close>): an own property of an object, else
  \<^verbatim>\<open>undefined\<close>. The callers write out the \<^verbatim>\<open>TypeError\<close> of a read on a nullish value.
\<close>

fun getProp :: "string \<Rightarrow> jsval \<Rightarrow> jsval" where
  "getProp k (JObj kvs) = (case map_of kvs k of Some v \<Rightarrow> v | None \<Rightarrow> JUndefined)"
| "getProp k v = JUndefined"

text \<open>\<^verbatim>\<open>a || b\<close>\<close>

definition js_or :: "jsval \<Rightarrow> jsval \<Rightarrow> jsval" where
  "js_or a b = (if truthy a then a else b)"

subsection \<open>Conversion to text\<close>

definition digitChar :: "nat \<Rightarrow> char" where
  "digitChar d = ''0123456789'' ! d"

fun showNat :: "nat \<Rightarrow> string" where
  "showNat n = (if n < 10 then [digitChar n] else showNat (n div 10) @ [digitChar (n mod 10)])"

declare showNat.simps [simp del]

definition showInt :: "int \<Rightarrow> string" where
  "showInt i = (if i < 0 then CHR ''-'' # showNat (nat (- i)) else showNat (nat i))"

text \<open>\<^verbatim>\<open>Array.prototype.join\<close> on elements that are already text.\<close>

fun joinWith :: "string \<Rightarrow> string list \<Rightarrow> string" where
  "joinWith sep [] = []"
| "joinWith sep [x] = x"
| "joinWith sep (x # y # ys) = x @ sep @ joinWith sep (y # ys)"

text \<open>
  \<^verbatim>\<open>String(v)\<close>, which is also what a template literal applies to an interpolated value:
  an array is its elements joined with a comma, \<^verbatim>\<open>null\<close> and \<^verbatim>\<open>undefined\<close> elements
  giving the empty text; a plain object is \<^verbatim>\<open>[object Object]\<close>.
\<close>

fun toStr :: "jsval \<Rightarrow> string" where
  "toStr JUndefined = ''undefined''"
| "toStr JNull = ''null''"
| "toStr (JBool b) = (if b then ''true'' else ''false'')"
| "toStr (JNum n) = showInt n"
| "toStr (JStr s) = s"
| "toStr (JArr xs) = joinWith '','' (map (\<lambda>x. if nullish x then [] else toStr x) xs)"
| "toStr (JObj kvs) = ''[object Object]''"

text \<open>\<^verbatim>\<open>xs.join(sep)\<close> on an array of values.\<close>

definition js_join :: "string \<Rightarrow> jsval list \<Rightarrow> string" where
  "js_join sep xs = joinWith sep (map (\<lambda>x. if nullish x then [] else toStr x) xs)"

subsection \<open>\<^verbatim>\<open>JSON.stringify\<close>\<close>

definition hexChar :: "nat \<Rightarrow> char" where
  "hexChar d = ''0123456789abcdef'' ! d"

definition escapeChar :: "char \<Rightarrow> string" where
  "escapeChar c =
     (if c = CHR ''\"'' then [CHR 0x5C, CHR ''\"'']
      else if c = CHR 0x5C then [CHR 0x5C, CHR 0x5C]
      else if c = CHR 0x08 then [CHR 0x5C, CHR ''b'']
      else if c = CHR 0x09 then [CHR 0x5C, CHR ''t'']
      else if c = CHR 0x0A then [CHR 0x5C, CHR ''n'']
      else if c = CHR 0x0C then [CHR 0x5C, CHR ''f'']
      else if c = CHR 0x0D then [CHR 0x5C, CHR ''r'']
      else if of_char c < (32::nat)
        then [CHR 0x5C, CHR ''u'', CHR ''0'', CHR ''0'',
              hexChar (of_char c div 16), hexChar (of_char c mod 16)]
      else [c])"

definition quoteJSON :: "string \<Rightarrow> string" where
  "quoteJSON s = CHR ''\"'' # concat (map escapeChar s) @ [CHR ''\"'']"

text \<open>
  Inside an array \<^verbatim>\<open>undefined\<close> is written \<^verbatim>\<open>null\<close>; inside an object a property
  whose value is \<^verbatim>\<open>undefined\<close> is left out. At top level \<^verbatim>\<open>JSON.stringify(undefined)\<close>
  is \<^verbatim>\<open>undefined\<close>, which the template literal of the caller prints as such.
\<close>

fun stringify :: "jsval \<Rightarrow> string" where
  "stringify JUndefined = ''undefined''"
| "stringify JNull = ''null''"
| "stringify (JBool b) = (if b then ''true'' else ''false'')"
| "stringify (JNum n) = showInt n"
| "stringify (JStr s) = quoteJSON s"
| "stringify (JArr xs) =
     ''['' @ joinWith '','' (map (\<lambda>x. if x = JUndefined then ''null'' else stringify x) xs) @ '']''"
| "stringify (JObj kvs) =
     ''{'' @ joinWith '',''
        (map (\<lambda>kv. quoteJSON (fst kv) @ '':'' @ stringify (snd kv))
           (filter (\<lambda>kv. snd kv \<noteq> JUndefined) kvs)) @ ''}''"

subsection \<open>The values the text conversions are right for\<close>



section \<open>Text helpers of the link-header parser\<close>

text \<open>\<^verbatim>\<open>s.includes(p)\<close>: \<open>p\<close> occurs in \<open>s\<close> as a contiguous piece.\<close>

primrec includesStr :: "string \<Rightarrow> string \<Rightarrow> bool" where
  "includesStr [] p = (p = [])"
| "includesStr (c # cs) p = (take (length p) (c # cs) = p \<or> includesStr cs p)"

text \<open>\<^verbatim>\<open>s.split(',')\<close>: the pieces between the commas; never the empty list.\<close>

fun splitOn :: "char \<Rightarrow> string \<Rightarrow> string list" where
  "splitOn sep [] = [[]]"
| "splitOn sep (c # cs) =
     (if c = sep then [] # splitOn sep cs
      else (case splitOn sep cs of [] \<Rightarrow> [[c]] | p # ps \<Rightarrow> (c # p) # ps))"

text \<open>
  \<^verbatim>\<open>link.match(/<(.+?)>/)\<close>: the leftmost \<^verbatim>\<open><\<close> that is followed by at least one
  character and then, before any line terminator, by a \<^verbatim>\<open>>\<close>; the group is the shortest
  such text. \<open>lazyGroup\<close> reads the group after a \<^verbatim>\<open><\<close>: its first character is taken
  whatever it is (a \<^verbatim>\<open>>\<close> too), the rest runs up to the first \<^verbatim>\<open>>\<close>.
\<close>

definition lineTerminator :: "char \<Rightarrow> bool" where
  "lineTerminator c = (c = CHR 0x0A \<or> c = CHR 0x0D)"

fun upToClose :: "string \<Rightarrow> string \<Rightarrow> string option" where
  "upToClose acc [] = None"
| "upToClose acc (c # cs) =
     (if c = CHR ''>'' then Some acc
      else if lineTerminator c then None
      else upToClose (acc @ [c]) cs)"

fun lazyGroup :: "string \<Rightarrow> string option" where
  "lazyGroup [] = None"
| "lazyGroup (c # cs) = (if lineTerminator c then None else upToClose [c] cs)"

fun matchAngle :: "string \<Rightarrow> string option" where
  "matchAngle [] = None"
| "matchAngle (c # cs) =
     (if c = CHR ''<''
      then (case lazyGroup cs of Some g \<Rightarrow> Some g | None \<Rightarrow> matchAngle cs)
      else matchAngle cs)"

section \<open>The transport core\<close>

subsection \<open>Data model\<close>

text \<open>
  A request configuration, as far as the interceptors read it. \<open>retryCount\<close> is the
  property \<^verbatim>\<open>__retryCount\<close> that the error interceptor keeps on the configuration
  object; \<open>None\<close> is \<^verbatim>\<open>undefined\<close>, its value on every configuration an accessor builds.
\<close>

record config =
  httpMethod :: string
  url :: string
  retryCount :: "nat option"

text \<open>
  A response: \<open>link\<close> is \<^verbatim>\<open>headers.link\<close> and \<open>contentType\<close> is
  \<^verbatim>\<open>headers['content-type']\<close>, \<open>None\<close> when the header is absent.
\<close>

record response =
  status :: int
  link :: "string option"
  contentType :: "string option"
  data :: jsval

text \<open>
  The error the HTTP library rejects with: \<open>errResponse\<close> is \<^verbatim>\<open>error.response\<close>,
  \<open>errRequest\<close> tells whether \<^verbatim>\<open>error.request\<close> is set, \<open>errConfig\<close> is
  \<^verbatim>\<open>error.config\<close>.
\<close>

record axiosError =
  message :: string
  errConfig :: "config option"
  errResponse :: "response option"
  errRequest :: bool

text \<open>
  Modelled from the spec: the class \<^verbatim>\<open>CanvasAPIError\<close> is declared in
  \<^verbatim>\<open>types.ts\<close>, which is not among the sources. The spec's typed error carries a
  message, a status and the raw body; the constructor calls in \<^verbatim>\<open>client.ts\<close> pass them
  in this order. Besides the typed error a call can raise the library's error, rethrown
  as it came, or a \<^verbatim>\<open>TypeError\<close> of the JavaScript runtime.
\<close>

datatype failure =
    CanvasAPIError string int jsval
  | Unwrapped axiosError
  | TypeError string

text \<open>The client's configuration, set by the constructor and read-only afterwards.\<close>

record client =
  baseURL :: string
  authorization :: string
  maxRetries :: int
  retryDelay :: int
  timeout :: int

text \<open>
  The options bag. Its declared type lists \<^verbatim>\<open>maxRetries\<close> and \<^verbatim>\<open>retryDelay\<close>, both
  optional. The environment loader of the server also reads a \<^verbatim>\<open>timeout\<close> setting, and
  an untyped caller can put one into the bag, so the model keeps that property to say what
  the constructor does with it: it never reads it.
\<close>

record options =
  opt_maxRetries :: "int option"
  opt_retryDelay :: "int option"
  opt_timeout :: "int option"

subsection \<open>Constructor\<close>

text \<open>\<^verbatim>\<open>options?.k ?? d\<close>\<close>

definition optOr :: "options option \<Rightarrow> (options \<Rightarrow> int option) \<Rightarrow> int \<Rightarrow> int" where
  "optOr opts k d = (case opts of None \<Rightarrow> d | Some o' \<Rightarrow> (case k o' of None \<Rightarrow> d | Some v \<Rightarrow> v))"

definition CanvasClient :: "string \<Rightarrow> string \<Rightarrow> options option \<Rightarrow> client" where
  "CanvasClient token domain opts =
     \<lparr> baseURL = ''https://'' @ domain @ ''/api/v1'',
       authorization = ''Bearer '' @ token,
       maxRetries = optOr opts opt_maxRetries 3,
       retryDelay = optOr opts opt_retryDelay 1000,
       timeout = 30000 \<rparr>"

subsection \<open>Retry decision\<close>

definition shouldRetry :: "axiosError \<Rightarrow> bool" where
  "shouldRetry e =
     (case errResponse e of
        None \<Rightarrow> True
      | Some r \<Rightarrow> status r = 429 \<or> status r \<ge> 500)"

text \<open>
  The guard and the body of the retry branch of the error interceptor:
  \<^verbatim>\<open>shouldRetry(error) && config && config.__retryCount < this.maxRetries\<close>. The comparison
  comes before the counter is initialised, and \<^verbatim>\<open>undefined < n\<close> is false for every
  number \<open>n\<close>. Inside the branch the counter becomes \<^verbatim>\<open>(config.__retryCount || 0) + 1\<close>
  and the delay is \<^verbatim>\<open>retryDelay * Math.pow(2, config.__retryCount - 1)\<close>. The result is
  the configuration to resend and the delay to wait, or \<open>None\<close> when the branch is not
  taken.
\<close>

definition retryStep :: "client \<Rightarrow> axiosError \<Rightarrow> (config \<times> int) option" where
  "retryStep cl e =
     (if shouldRetry e then
        (case errConfig e of
           None \<Rightarrow> None
         | Some cfg \<Rightarrow>
             (case retryCount cfg of
                None \<Rightarrow> None
              | Some c \<Rightarrow>
                  if int c < maxRetries cl then
                    (let c0 = (if c \<noteq> 0 then c else 0);
                         c1 = c0 + 1;
                         delay = retryDelay cl * 2 ^ (c1 - 1)
                     in Some (cfg\<lparr>retryCount := Some c1\<rparr>, delay))
                  else None))
      else None)"

subsection \<open>Pagination links\<close>

definition getNextPageUrl :: "string \<Rightarrow> string option" where
  "getNextPageUrl linkHeader =
     (case find (\<lambda>l. includesStr l ''rel=\"next\"'') (splitOn CHR '','' linkHeader) of
        None \<Rightarrow> None
      | Some nextLink \<Rightarrow> matchAngle nextLink)"

subsection \<open>Error normalisation\<close>

text \<open>
  One element of \<^verbatim>\<open>errors.map((err) => err.message || err)\<close>. Reading a property of
  \<^verbatim>\<open>null\<close> or \<^verbatim>\<open>undefined\<close> throws, which is \<open>None\<close> here.
\<close>

definition errItem :: "jsval \<Rightarrow> jsval option" where
  "errItem err = (if nullish err then None else Some (js_or (getProp ''message'' err) err))"

fun isObject :: "jsval \<Rightarrow> bool" where
  "isObject (JArr xs) = True"
| "isObject (JObj kvs) = True"
| "isObject v = False"

text \<open>
  The value of \<^verbatim>\<open>errorMessage\<close> after the \<^verbatim>\<open>try\<close> block. The only statement of the
  block that can throw on a decoded body is the \<^verbatim>\<open>map\<close> over an \<^verbatim>\<open>errors\<close> array
  with a \<^verbatim>\<open>null\<close> element; the \<^verbatim>\<open>catch\<close> then takes \<^verbatim>\<open>String(data)\<close>. A
  \<^verbatim>\<open>message\<close> property need not be text: the value is kept as it is and turned into
  text by the template literal that builds the final message.
\<close>

definition errorMessage :: "jsval \<Rightarrow> jsval" where
  "errorMessage d =
     (case d of
        JStr s \<Rightarrow> JStr (if length s > 200 then take 200 s @ ''...'' else s)
      | _ \<Rightarrow>
          if truthy d \<and> isObject d then
            (if truthy (getProp ''message'' d) then getProp ''message'' d
             else
               (case getProp ''errors'' d of
                  JArr errs \<Rightarrow>
                    (case those (map errItem errs) of
                       Some items \<Rightarrow> JStr (js_join '', '' items)
                     | None \<Rightarrow> JStr (toStr d))
                | _ \<Rightarrow> JStr (stringify d)))
          else JStr (toStr d))"

text \<open>
  The second half of the error interceptor, reached when the retry branch is not taken: a
  typed error when a response came, a typed error with status 0 when a request was sent
  and nothing came back, the error itself otherwise.
\<close>

definition transformError :: "axiosError \<Rightarrow> failure" where
  "transformError e =
     (case errResponse e of
        Some r \<Rightarrow>
          CanvasAPIError
            (''Canvas API Error ('' @ toStr (JNum (status r)) @ ''): '' @ toStr (errorMessage (data r)))
            (status r) (data r)
      | None \<Rightarrow>
          if errRequest e then CanvasAPIError (''Network error: '' @ message e) 0 JNull
          else Unwrapped e)"

subsection \<open>The remote end and the HTTP library\<close>

text \<open>
  What can happen to one request on the wire: the remote end answers; nothing comes back
  after the request was sent (connection failure, timeout); or the request fails before
  anything is sent. The remote end is a function of the number of requests it has seen
  and of the request, so that it can fail twice and then answer.
\<close>

datatype outcome =
    Responds response
  | NetworkFailure string
  | SetupFailure string

type_synonym server = "nat \<Rightarrow> config \<Rightarrow> outcome"

text \<open>
  The library resolves with the response when its status is in \<open>[200, 300)\<close> and rejects
  with an error carrying the response otherwise; the configuration of the request,
  custom properties included, is on the error.
\<close>

definition dispatch :: "config \<Rightarrow> outcome \<Rightarrow> axiosError + response" where
  "dispatch cfg out =
     (case out of
        Responds r \<Rightarrow>
          if 200 \<le> status r \<and> status r < 300 then Inr r
          else Inl \<lparr> message = ''Request failed with status code '' @ showInt (status r),
                     errConfig = Some cfg, errResponse = Some r, errRequest = True \<rparr>
      | NetworkFailure m \<Rightarrow>
          Inl \<lparr> message = m, errConfig = Some cfg, errResponse = None, errRequest = True \<rparr>
      | SetupFailure m \<Rightarrow>
          Inl \<lparr> message = m, errConfig = Some cfg, errResponse = None, errRequest = False \<rparr>)"

text \<open>
  The observable trace of a call: requests handed to the HTTP library, one per attempt,
  and the times waited between them.
\<close>

datatype event = Sent config | Slept int

fun isSent :: "event \<Rightarrow> bool" where
  "isSent (Sent c) = True"
| "isSent (Slept d) = False"

definition sentCount :: "event list \<Rightarrow> nat" where
  "sentCount tr = length (filter isSent tr)"

text \<open>The addresses requested, in order.\<close>

fun sentUrls :: "event list \<Rightarrow> string list" where
  "sentUrls [] = []"
| "sentUrls (Sent c # es) = url c # sentUrls es"
| "sentUrls (Slept d # es) = sentUrls es"

text \<open>\<^verbatim>\<open>this.client.get(url)\<close> builds a fresh configuration.\<close>

definition getConfig :: "string \<Rightarrow> config" where
  "getConfig u = \<lparr> httpMethod = ''get'', url = u, retryCount = None \<rparr>"

text \<open>
  \<^verbatim>\<open>[...allData, ...nextResponse.data]\<close>: an array spreads into its elements, a text
  into its characters; any other value is not iterable.
\<close>

fun spread :: "jsval \<Rightarrow> jsval list option" where
  "spread (JArr xs) = Some xs"
| "spread (JStr s) = Some (map (\<lambda>c. JStr [c]) s)"
| "spread v = None"

subsection \<open>Waiting\<close>

text \<open>
  \<^verbatim>\<open>sleep(ms)\<close> resolves when \<^verbatim>\<open>setTimeout(resolve, ms)\<close> fires. The timer of the
  runtime takes a delay below 1 or above 2147483647 as 1. The value is the time waited, in
  milliseconds.
\<close>

definition sleep :: "int \<Rightarrow> int" where
  "sleep ms = (if ms < 1 \<or> 2147483647 < ms then 1 else ms)"

subsection \<open>Request execution\<close>

text \<open>
  \<open>request\<close> is \<^verbatim>\<open>this.client.request(config)\<close> with both response interceptors:
  every request of the client, the follow-up requests of the pagination loop and the
  resent request of the retry branch included, passes through them again. \<open>followPages\<close>
  is the \<^verbatim>\<open>while (nextUrl)\<close> loop. The remote end may hand out next links for ever,
  so both take fuel, and \<open>None\<close> means that the fuel ran out.
\<close>

fun request :: "nat \<Rightarrow> client \<Rightarrow> server \<Rightarrow> config \<Rightarrow> event list
                 \<Rightarrow> ((failure + response) \<times> event list) option"
and followPages :: "nat \<Rightarrow> client \<Rightarrow> server \<Rightarrow> jsval list \<Rightarrow> string option \<Rightarrow> event list
                 \<Rightarrow> ((failure + jsval list) \<times> event list) option"
where
  "request 0 cl sv cfg tr = None"
| "request (Suc n) cl sv cfg tr =
     (case dispatch cfg (sv (sentCount tr) cfg) of
        Inr resp \<Rightarrow>
          (case (data resp, link resp) of
             (JArr items, Some linkHeader) \<Rightarrow>
               if linkHeader \<noteq> [] \<and>
                  includesStr (case contentType resp of None \<Rightarrow> [] | Some ct \<Rightarrow> ct) ''application/json''
               then
                 (case followPages n cl sv items (getNextPageUrl linkHeader) (tr @ [Sent cfg]) of
                    None \<Rightarrow> None
                  | Some (Inl f, tr') \<Rightarrow> Some (Inl f, tr')
                  | Some (Inr allData, tr') \<Rightarrow> Some (Inr (resp\<lparr>data := JArr allData\<rparr>), tr'))
               else Some (Inr resp, tr @ [Sent cfg])
           | _ \<Rightarrow> Some (Inr resp, tr @ [Sent cfg]))
      | Inl err \<Rightarrow>
          (case retryStep cl err of
             Some (cfg', delay) \<Rightarrow> request n cl sv cfg' (tr @ [Sent cfg, Slept (sleep delay)])
           | None \<Rightarrow> Some (Inl (transformError err), tr @ [Sent cfg])))"
| "followPages n cl sv allData None tr = Some (Inr allData, tr)"
| "followPages 0 cl sv allData (Some nextUrl) tr =
     (if nextUrl = [] then Some (Inr allData, tr) else None)"
| "followPages (Suc n) cl sv allData (Some nextUrl) tr =
     (if nextUrl = [] then Some (Inr allData, tr)
      else
        (case request n cl sv (getConfig nextUrl) tr of
           None \<Rightarrow> None
         | Some (Inl f, tr') \<Rightarrow> Some (Inl f, tr')
         | Some (Inr nextResponse, tr') \<Rightarrow>
             (case spread (data nextResponse) of
                None \<Rightarrow> Some (Inl (TypeError ''nextResponse.data is not iterable''), tr')
              | Some nextItems \<Rightarrow>
                  (case link nextResponse of
                     None \<Rightarrow> Some (Inl (TypeError ''Cannot read properties of undefined (reading split)''), tr')
                   | Some l \<Rightarrow> followPages n cl sv (allData @ nextItems) (getNextPageUrl l) tr'))))"

section \<open>Resource accessors\<close>

subsection \<open>Health check\<close>

text \<open>
  \<^verbatim>\<open>getUserProfile\<close>: one GET, the body of the response is the result.
\<close>

definition getUserProfile :: "nat \<Rightarrow> client \<Rightarrow> server \<Rightarrow> event list
                 \<Rightarrow> ((failure + jsval) \<times> event list) option" where
  "getUserProfile n cl sv tr =
     (case request n cl sv (getConfig ''/users/self/profile'') tr of
        None \<Rightarrow> None
      | Some (Inl f, tr') \<Rightarrow> Some (Inl f, tr')
      | Some (Inr resp, tr') \<Rightarrow> Some (Inr (data resp), tr'))"

text \<open>
  \<^verbatim>\<open>healthCheck\<close>, given the clock reading \<^verbatim>\<open>new Date().toISOString()\<close> and the
  settled outcome of \<^verbatim>\<open>this.getUserProfile()\<close>. The whole body is inside
  \<^verbatim>\<open>try\<close>: the rejection of the fetch and the \<^verbatim>\<open>TypeError\<close> of reading
  \<^verbatim>\<open>user.id\<close> on \<^verbatim>\<open>null\<close> both end in the \<^verbatim>\<open>catch\<close>. The result type keeps a
  place for a failure that would escape.
\<close>

definition healthCheck :: "string \<Rightarrow> failure + jsval \<Rightarrow> failure + jsval" where
  "healthCheck now profile =
     (case profile of
        Inr user \<Rightarrow>
          if nullish user
          then Inr (JObj [(''status'', JStr ''error''), (''timestamp'', JStr now)])
          else Inr (JObj [(''status'', JStr ''ok''), (''timestamp'', JStr now),
                          (''user'', JObj [(''id'', getProp ''id'' user),
                                           (''name'', getProp ''name'' user)])])
      | Inl f \<Rightarrow> Inr (JObj [(''status'', JStr ''error''), (''timestamp'', JStr now)]))"

subsection \<open>Course roster with activity\<close>

text \<open>
  \<^verbatim>\<open>{...student}\<close>: the own properties of an object; the indexed elements of an array
  or of a text; nothing for any other value.
\<close>

fun spreadProps :: "jsval \<Rightarrow> (string \<times> jsval) list" where
  "spreadProps (JObj kvs) = kvs"
| "spreadProps (JArr xs) = zip (map showNat [0..<length xs]) xs"
| "spreadProps (JStr s) = zip (map showNat [0..<length s]) (map (\<lambda>c. JStr [c]) s)"
| "spreadProps v = []"

text \<open>
  Writing a property in an object literal after a spread: an existing key keeps its
  place and takes the new value, a new key goes last.
\<close>

fun setProp :: "string \<Rightarrow> jsval \<Rightarrow> (string \<times> jsval) list \<Rightarrow> (string \<times> jsval) list" where
  "setProp k v [] = [(k, v)]"
| "setProp k v ((k', v') # kvs) =
     (if k' = k then (k, v) # kvs else (k', v') # setProp k v kvs)"

text \<open>\<^verbatim>\<open>d[0]\<close> for a value \<open>d\<close> that is not nullish.\<close>

fun index0 :: "jsval \<Rightarrow> jsval" where
  "index0 (JArr []) = JUndefined"
| "index0 (JArr (x # xs)) = x"
| "index0 (JStr []) = JUndefined"
| "index0 (JStr (c # cs)) = JStr [c]"
| "index0 (JObj kvs) = getProp ''0'' (JObj kvs)"
| "index0 v = JUndefined"

text \<open>
  The value of \<^verbatim>\<open>last_activity\<close> for one student, from the settled outcome of that
  student's page-view request: \<^verbatim>\<open>activityResponse.data[0]?.created_at || null\<close> inside
  the \<^verbatim>\<open>try\<close>, \<^verbatim>\<open>null\<close> from the \<^verbatim>\<open>catch\<close>.
\<close>

definition lastActivity :: "failure + response \<Rightarrow> jsval" where
  "lastActivity sub =
     (case sub of
        Inl f \<Rightarrow> JNull
      | Inr activityResponse \<Rightarrow>
          if nullish (data activityResponse) then JNull
          else
            (let first = index0 (data activityResponse)
             in js_or (if nullish first then JUndefined else getProp ''created_at'' first) JNull))"

text \<open>
  The callback of \<^verbatim>\<open>response.data.map\<close>. \<open>get\<close> is the settled outcome of
  \<^verbatim>\<open>this.client.get\<close> on the given address. Reading \<^verbatim>\<open>student.id\<close> is inside the
  \<^verbatim>\<open>try\<close> as well, so a nullish roster entry sends no request and ends in the
  \<^verbatim>\<open>catch\<close>.
\<close>

definition pageViewsUrl :: "jsval \<Rightarrow> string" where
  "pageViewsUrl student = ''/users/'' @ toStr (getProp ''id'' student) @ ''/page_views?per_page=1''"

definition withActivity :: "(string \<Rightarrow> failure + response) \<Rightarrow> jsval \<Rightarrow> jsval" where
  "withActivity get student =
     (if nullish student then JObj (setProp ''last_activity'' JNull (spreadProps student))
      else
        JObj (setProp ''last_activity'' (lastActivity (get (pageViewsUrl student)))
                (spreadProps student)))"

text \<open>
  \<^verbatim>\<open>getCourseStudents\<close>, given \<^verbatim>\<open>args.include_activity\<close>, the settled outcome of the
  roster request and, for the student at each position of the roster, the outcome of the
  request the callback makes. The callbacks start in roster order and
  \<^verbatim>\<open>Promise.all\<close> keeps that order in its result; since no callback rejects, it
  fulfils. Every request is taken as settled; the query string of the roster request is
  not modelled.
\<close>

definition getCourseStudents ::
    "bool \<Rightarrow> failure + response \<Rightarrow> (nat \<Rightarrow> string \<Rightarrow> failure + response) \<Rightarrow> failure + jsval" where
  "getCourseStudents include_activity roster activity =
     (case roster of
        Inl f \<Rightarrow> Inl f
      | Inr resp \<Rightarrow>
          if include_activity then
            (case data resp of
               JArr students \<Rightarrow>
                 Inr (JArr (map (\<lambda>(i, student). withActivity (activity i) student)
                              (enumerate 0 students)))
             | _ \<Rightarrow> Inl (TypeError ''response.data.map is not a function''))
          else Inr (data resp))"

section \<open>The instance and its methods\<close>




section \<open>Reading a trace\<close>






definition live :: "string option \<Rightarrow> string option" where
  "live nextUrl = (case nextUrl of None \<Rightarrow> None | Some u \<Rightarrow> if u = [] then None else Some u)"

definition nextPage :: "response \<Rightarrow> string option" where
  "nextPage r = (case link r of None \<Rightarrow> None | Some l \<Rightarrow> live (getNextPageUrl l))"






text \<open>
  The trace of a request that carries the retry counter \<open>c\<close> and is rejected and resent
  \<open>k\<close> times, with \<open>d\<close> as the base delay.
\<close>

fun backoffTrace :: "config \<Rightarrow> int \<Rightarrow> nat \<Rightarrow> nat \<Rightarrow> event list" where
  "backoffTrace cfg d c 0 = [Sent (cfg\<lparr>retryCount := Some c\<rparr>)]"
| "backoffTrace cfg d c (Suc k) =
     Sent (cfg\<lparr>retryCount := Some c\<rparr>) # Slept (sleep (d * 2 ^ c)) # backoffTrace cfg d (Suc c) k"

section \<open>Scenarios\<close>

text \<open>Concrete clients and remote ends on which the properties below are exercised.\<close>

definition twoRetriesClient :: client where
  "twoRetriesClient =
     CanvasClient ''secret'' ''school.instructure.com''
       (Some \<lparr> opt_maxRetries = Some 2, opt_retryDelay = Some 1000, opt_timeout = None \<rparr>)"

definition jsonResponse :: "int \<Rightarrow> string option \<Rightarrow> jsval \<Rightarrow> response" where
  "jsonResponse st l d =
     \<lparr> status = st, link = l, contentType = Some ''application/json; charset=utf-8'', data = d \<rparr>"

text \<open>Every request is answered with status 500.\<close>

definition always500 :: server where
  "always500 i cfg = Responds (jsonResponse 500 None (JObj [(''message'', JStr ''boom'')]))"


text \<open>No request gets an answer.\<close>

definition networkDown :: server where
  "networkDown i cfg = NetworkFailure ''timeout of 30000ms exceeded''"



text \<open>
  A collection of three pages of two items each. Every page carries a link header; the
  first two name their successor with \<^verbatim>\<open>rel="next"\<close>, the last one only names the
  first page.
\<close>

definition threePages :: server where
  "threePages i cfg =
     (if url cfg = ''/items'' then
        Responds (jsonResponse 200
          (Some ''<https://h/api/v1/items?page=2>; rel=\"next\",<https://h/api/v1/items?page=1>; rel=\"first\"'')
          (JArr [JNum 1, JNum 2]))
      else if url cfg = ''https://h/api/v1/items?page=2'' then
        Responds (jsonResponse 200
          (Some ''<https://h/api/v1/items?page=3>; rel=\"next\",<https://h/api/v1/items?page=1>; rel=\"first\"'')
          (JArr [JNum 3, JNum 4]))
      else if url cfg = ''https://h/api/v1/items?page=3'' then
        Responds (jsonResponse 200
          (Some ''<https://h/api/v1/items?page=1>; rel=\"first\"'')
          (JArr [JNum 5, JNum 6]))
      else Responds (jsonResponse 404 None JNull))"

text \<open>A roster of five students; the page-view request of the third one fails.\<close>

definition student :: "int \<Rightarrow> string \<Rightarrow> jsval" where
  "student i n = JObj [(''id'', JNum i), (''name'', JStr n)]"

definition fiveStudents :: "jsval list" where
  "fiveStudents =
     [student 11 ''Ada'', student 12 ''Bob'', student 13 ''Cy'', student 14 ''Di'', student 15 ''Ed'']"

definition thirdFails :: "nat \<Rightarrow> string \<Rightarrow> failure + response" where
  "thirdFails i u =
     (if i = 2 then Inl (CanvasAPIError ''Canvas API Error (403): forbidden'' 403 JNull)
      else Inr (jsonResponse 200 None (JArr [JObj [(''created_at'', JStr ''2024-05-01T10:00:00Z'')]])))"

text \<open>
  A client with a base delay of 100 ms and the default retry limit.
\<close>

definition hundredMsClient :: client where
  "hundredMsClient =
     CanvasClient ''secret'' ''school.instructure.com''
       (Some \<lparr> opt_maxRetries = None, opt_retryDelay = Some 100, opt_timeout = None \<rparr>)"

text \<open>The first two requests are answered with status 503, every later one with 200.\<close>

definition failsTwice503 :: server where
  "failsTwice503 i cfg =
     (if i < 2
      then Responds \<lparr> status = 503, link = None, contentType = Some ''text/plain'',
                      data = JStr ''Service Unavailable'' \<rparr>
      else Responds (jsonResponse 200 None (JObj [(''id'', JNum 1)])))"

text \<open>The first request gets no answer, every later one is answered with 200.\<close>

definition timeoutOnce :: server where
  "timeoutOnce i cfg =
     (if i = 0 then NetworkFailure ''timeout of 30000ms exceeded''
      else Responds (jsonResponse 200 None (JObj [(''id'', JNum 1)])))"



text \<open>The profile request is answered with status 200 and the body \<^verbatim>\<open>null\<close>.\<close>

definition nullProfile :: server where
  "nullProfile i cfg = Responds (jsonResponse 200 None JNull)"

section \<open>Properties\<close>

subsection \<open>Steps of the error interceptor\<close>

lemma dispatch_errConfig: "dispatch cfg out = Inl e \<Longrightarrow> errConfig e = Some cfg"
  by (auto simp: dispatch_def split: outcome.splits if_splits)



text \<open>
  A configuration built by an accessor has no retry counter, and the guard of the retry
  branch is then false: its first rejection ends the call.
\<close>

lemma fresh_config_never_resent:
  "retryCount cfg = None \<Longrightarrow> dispatch cfg (sv (sentCount tr) cfg) = Inl e \<Longrightarrow>
   request (Suc n) cl sv cfg tr = Some (Inl (transformError e), tr @ [Sent cfg])"
  by (frule dispatch_errConfig) (simp add: retryStep_def)

subsection \<open>Retry exhaustion\<close>

text \<open>
  C1 on the code: with a retry limit of 2 and a remote end that answers every request
  with status 500, a call started by an accessor puts one request on the wire, waits for
  nothing and raises the typed error with status 500. The guard of the retry branch
  compares \<^verbatim>\<open>__retryCount\<close> while it is still \<^verbatim>\<open>undefined\<close>.
\<close>

theorem always500_single_attempt:
  "maxRetries twoRetriesClient = 2
   \<and> request (Suc (Suc (Suc (Suc 0)))) twoRetriesClient always500 (getConfig ''/courses'') [] =
       Some (Inl (CanvasAPIError ''Canvas API Error (500): boom'' 500
                    (JObj [(''message'', JStr ''boom'')])),
             [Sent (getConfig ''/courses'')])"
  by (simp add: twoRetriesClient_def CanvasClient_def optOr_def always500_def jsonResponse_def
      getConfig_def dispatch_def retryStep_def shouldRetry_def transformError_def errorMessage_def
      sentCount_def showInt_def showNat.simps digitChar_def)

subsection \<open>Pagination\<close>

text \<open>The run of one call on the three-page collection, evaluated.\<close>

lemma threePages_run:
  "request (Suc (Suc (Suc (Suc (Suc (Suc 0)))))) twoRetriesClient threePages (getConfig ''/items'') [] =
     Some (Inr (jsonResponse 200
                  (Some ''<https://h/api/v1/items?page=2>; rel=\"next\",<https://h/api/v1/items?page=1>; rel=\"first\"'')
                  (JArr [JNum 1, JNum 2, JNum 3, JNum 4, JNum 5, JNum 6, JNum 5, JNum 6])),
           [Sent (getConfig ''/items''),
            Sent (getConfig ''https://h/api/v1/items?page=2''),
            Sent (getConfig ''https://h/api/v1/items?page=3''),
            Sent (getConfig ''https://h/api/v1/items?page=3'')])"
  by (simp add: threePages_def jsonResponse_def getConfig_def dispatch_def getNextPageUrl_def
      lineTerminator_def sentCount_def)

text \<open>
  C2 on the code: for three pages of two items each, linked by \<^verbatim>\<open>rel="next"\<close>, one
  call returns eight items, the last page twice, and sends three follow-up requests. The
  follow-up request for page 2 passes through the response interceptor itself, which
  already drains page 3; the outer loop then reads page 2's own link header and fetches
  page 3 again.
\<close>

theorem three_pages_last_page_twice:
  "\<exists>resp tr.
     request (Suc (Suc (Suc (Suc (Suc (Suc 0)))))) twoRetriesClient threePages (getConfig ''/items'') []
       = Some (Inr resp, tr)
     \<and> data resp = JArr [JNum 1, JNum 2, JNum 3, JNum 4, JNum 5, JNum 6, JNum 5, JNum 6]
     \<and> sentUrls tr = [''/items'', ''https://h/api/v1/items?page=2'',
                       ''https://h/api/v1/items?page=3'', ''https://h/api/v1/items?page=3'']"
  using threePages_run by (simp add: jsonResponse_def getConfig_def del: request.simps)

subsection \<open>Retry classification\<close>



subsection \<open>Roster with activity\<close>

lemma map_of_setProp_same: "map_of (setProp k v kvs) k = Some v"
  by (induction kvs) auto

lemma map_of_setProp_other: "k' \<noteq> k \<Longrightarrow> map_of (setProp k v kvs) k' = map_of kvs k'"
  by (induction kvs) auto

lemma withActivity_shape:
  "\<exists>la. withActivity get st = JObj (setProp ''last_activity'' la (spreadProps st))"
  by (auto simp: withActivity_def)

lemma withActivity_failed:
  "get (pageViewsUrl st) = Inl f \<Longrightarrow> getProp ''last_activity'' (withActivity get st) = JNull"
  by (simp add: withActivity_def lastActivity_def map_of_setProp_same)

lemma withActivity_keeps:
  "k \<noteq> ''last_activity'' \<Longrightarrow> getProp k (withActivity get (JObj kvs)) = getProp k (JObj kvs)"
  by (simp add: withActivity_def map_of_setProp_other)

text \<open>
  C8: when the roster request has succeeded with an array, \<^verbatim>\<open>getCourseStudents\<close> with
  \<^verbatim>\<open>include_activity\<close> returns, and raises nothing, whatever the page-view requests
  do. The result has one entry for every student of the roster, in roster order: the
  student's properties with \<^verbatim>\<open>last_activity\<close> set, every other property of a student
  object unchanged. Where the student's page-view request fails, \<^verbatim>\<open>last_activity\<close> is
  \<^verbatim>\<open>null\<close>.
\<close>

theorem roster_partial_failure_tolerated:
  assumes "roster = Inr resp" and "data resp = JArr students"
  shows "\<exists>out. getCourseStudents True roster activity = Inr (JArr out)
          \<and> length out = length students
          \<and> (\<forall>i<length students.
                (\<exists>la. out ! i = JObj (setProp ''last_activity'' la (spreadProps (students ! i))))
                \<and> (\<forall>kvs k. students ! i = JObj kvs \<and> k \<noteq> ''last_activity''
                      \<longrightarrow> getProp k (out ! i) = getProp k (students ! i))
                \<and> ((\<exists>f. activity i (pageViewsUrl (students ! i)) = Inl f)
                      \<longrightarrow> getProp ''last_activity'' (out ! i) = JNull))"
proof -
  let ?out = "map (\<lambda>(i, student). withActivity (activity i) student) (enumerate 0 students)"
  have r: "getCourseStudents True roster activity = Inr (JArr ?out)"
    using assms by (simp add: getCourseStudents_def)
  have n: "\<And>i. i < length students \<Longrightarrow> ?out ! i = withActivity (activity i) (students ! i)"
    by (simp add: nth_enumerate_eq)
  have "\<forall>i<length students.
                (\<exists>la. ?out ! i = JObj (setProp ''last_activity'' la (spreadProps (students ! i))))
                \<and> (\<forall>kvs k. students ! i = JObj kvs \<and> k \<noteq> ''last_activity''
                      \<longrightarrow> getProp k (?out ! i) = getProp k (students ! i))
                \<and> ((\<exists>f. activity i (pageViewsUrl (students ! i)) = Inl f)
                      \<longrightarrow> getProp ''last_activity'' (?out ! i) = JNull)"
  proof (intro allI impI conjI)
    fix i assume i: "i < length students"
    show "\<exists>la. ?out ! i = JObj (setProp ''last_activity'' la (spreadProps (students ! i)))"
      unfolding n[OF i] by (rule withActivity_shape)
  next
    fix i kvs k assume i: "i < length students"
      and h: "students ! i = JObj kvs \<and> k \<noteq> ''last_activity''"
    then show "getProp k (?out ! i) = getProp k (students ! i)"
      unfolding n[OF i] using withActivity_keeps[of k "activity i" kvs] by simp
  next
    fix i assume i: "i < length students"
      and "\<exists>f. activity i (pageViewsUrl (students ! i)) = Inl f"
    then show "getProp ''last_activity'' (?out ! i) = JNull"
      unfolding n[OF i] by (auto dest: withActivity_failed)
  qed
  with r show ?thesis by (intro exI[of _ ?out]) simp
qed

theorem roster_partial_failure_tolerated_witness:
  "getCourseStudents True (Inr (jsonResponse 200 None (JArr fiveStudents))) thirdFails =
     Inr (JArr
       [JObj [(''id'', JNum 11), (''name'', JStr ''Ada''), (''last_activity'', JStr ''2024-05-01T10:00:00Z'')],
        JObj [(''id'', JNum 12), (''name'', JStr ''Bob''), (''last_activity'', JStr ''2024-05-01T10:00:00Z'')],
        JObj [(''id'', JNum 13), (''name'', JStr ''Cy''), (''last_activity'', JNull)],
        JObj [(''id'', JNum 14), (''name'', JStr ''Di''), (''last_activity'', JStr ''2024-05-01T10:00:00Z'')],
        JObj [(''id'', JNum 15), (''name'', JStr ''Ed''), (''last_activity'', JStr ''2024-05-01T10:00:00Z'')]])"
proof -
  have d: "data (jsonResponse 200 None (JArr fiveStudents)) = JArr fiveStudents"
    by (simp add: jsonResponse_def)
  from roster_partial_failure_tolerated[OF refl d, of thirdFails]
  obtain out where o: "getCourseStudents True (Inr (jsonResponse 200 None (JArr fiveStudents))) thirdFails = Inr (JArr out)"
    and "length out = length fiveStudents" by blast
  have "out = map (\<lambda>(i, student). withActivity (thirdFails i) student) (enumerate 0 fiveStudents)"
    using o by (simp add: getCourseStudents_def jsonResponse_def)
  also have "\<dots> = [JObj [(''id'', JNum 11), (''name'', JStr ''Ada''), (''last_activity'', JStr ''2024-05-01T10:00:00Z'')],
        JObj [(''id'', JNum 12), (''name'', JStr ''Bob''), (''last_activity'', JStr ''2024-05-01T10:00:00Z'')],
        JObj [(''id'', JNum 13), (''name'', JStr ''Cy''), (''last_activity'', JNull)],
        JObj [(''id'', JNum 14), (''name'', JStr ''Di''), (''last_activity'', JStr ''2024-05-01T10:00:00Z'')],
        JObj [(''id'', JNum 15), (''name'', JStr ''Ed''), (''last_activity'', JStr ''2024-05-01T10:00:00Z'')]]"
    by (simp add: fiveStudents_def student_def thirdFails_def withActivity_def lastActivity_def
        jsonResponse_def js_or_def)
  finally show ?thesis using o by simp
qed

subsection \<open>Fuel\<close>

text \<open>A call that ends with some fuel ends in the same way with more.\<close>

lemma fuel_Suc:
  "(\<forall>cfg tr x. request n cl sv cfg tr = Some x \<longrightarrow> request (Suc n) cl sv cfg tr = Some x)
   \<and> (\<forall>acc nxt tr y. followPages n cl sv acc nxt tr = Some y \<longrightarrow> followPages (Suc n) cl sv acc nxt tr = Some y)"
proof (induction n)
  case 0
  have "\<And>acc nxt tr y. followPages 0 cl sv acc nxt tr = Some y \<Longrightarrow> followPages (Suc 0) cl sv acc nxt tr = Some y"
    subgoal for acc nxt by (cases nxt) (auto split: if_splits)
    done
  then show ?case by simp
next
  case (Suc n)
  then have IHr: "\<And>cfg tr x. request n cl sv cfg tr = Some x \<Longrightarrow> request (Suc n) cl sv cfg tr = Some x"
    and IHf: "\<And>acc nxt tr y. followPages n cl sv acc nxt tr = Some y \<Longrightarrow> followPages (Suc n) cl sv acc nxt tr = Some y"
    by blast+
  have A: "request (Suc (Suc n)) cl sv cfg tr = Some x"
    if h: "request (Suc n) cl sv cfg tr = Some x" for cfg tr x
    using h IHr IHf
    apply (subst request.simps(2))
    apply (subst (asm) request.simps(2))
    apply (auto split: sum.splits option.splits jsval.splits prod.splits if_splits simp del: request.simps followPages.simps)
    done
  have B: "followPages (Suc (Suc n)) cl sv acc nxt tr = Some y"
    if h: "followPages (Suc n) cl sv acc nxt tr = Some y" for acc nxt tr y
  proof (cases nxt)
    case None then show ?thesis using h by simp
  next
    case (Some u)
    with h IHr IHf show ?thesis
      apply (simp only: followPages.simps(3))
      apply (auto split: sum.splits option.splits prod.splits if_splits simp del: request.simps followPages.simps)
      apply (cases y; simp del: request.simps followPages.simps)
      done
  qed
  from A B show ?case by blast
qed

lemma request_fuel_mono:
  assumes "request n cl sv cfg tr = Some x" and "n \<le> n'"
  shows "request n' cl sv cfg tr = Some x"
  using assms(2)
proof (induction rule: dec_induct)
  case base
  from assms(1) show ?case .
next
  case (step k)
  with fuel_Suc[of k cl sv] show ?case by blast
qed

subsection \<open>Counting requests\<close>

lemma sentCount_append [simp]: "sentCount (a @ b) = sentCount a + sentCount b"
  by (simp add: sentCount_def)

lemma sentCount_Cons [simp]:
  "sentCount (Sent c # es) = Suc (sentCount es)" "sentCount (Slept d # es) = sentCount es"
  "sentCount [] = 0"
  by (simp_all add: sentCount_def)

subsection \<open>Backoff\<close>

text \<open>
  C6 on the code: with a base delay of 100 ms, the default retry limit of 3, and a remote
  end that answers the first two requests with status 503 and every later one with 200,
  a call started by an accessor makes one request, waits for nothing and raises the typed
  error with status 503. No retry is made, so neither the 100 ms before a first retry nor
  the 200 ms before a second one is waited: the guard of the retry branch is false, as
  in C1.
\<close>

theorem failsTwice503_no_backoff:
  "maxRetries hundredMsClient = 3 \<and> retryDelay hundredMsClient = 100
   \<and> request (Suc (Suc (Suc (Suc 0)))) hundredMsClient failsTwice503 (getConfig ''/courses'') [] =
       Some (Inl (CanvasAPIError ''Canvas API Error (503): Service Unavailable'' 503
                    (JStr ''Service Unavailable'')),
             [Sent (getConfig ''/courses'')])"
  by (simp add: hundredMsClient_def CanvasClient_def optOr_def failsTwice503_def
      getConfig_def dispatch_def retryStep_def shouldRetry_def transformError_def errorMessage_def
      sentCount_def showInt_def showNat.simps digitChar_def)

subsection \<open>Network failures\<close>

text \<open>
  C5 on the code: with a retry limit of 2 and a remote end that leaves the first request
  unanswered and would answer every later one, the error of the first request is
  classified retryable by \<open>shouldRetry\<close>, and yet the call started by an accessor raises
  the typed error with status 0 after that one request: the retry limit is not exhausted,
  the request is never resent. The guard of the retry branch is false, as in C1.
\<close>

theorem timeoutOnce_not_retried:
  "maxRetries twoRetriesClient = 2
   \<and> shouldRetry \<lparr> message = ''timeout of 30000ms exceeded'', errConfig = Some (getConfig ''/courses''),
                     errResponse = None, errRequest = True \<rparr>
   \<and> request (Suc (Suc (Suc (Suc 0)))) twoRetriesClient timeoutOnce (getConfig ''/courses'') [] =
       Some (Inl (CanvasAPIError ''Network error: timeout of 30000ms exceeded'' 0 JNull),
             [Sent (getConfig ''/courses'')])"
  by (simp add: twoRetriesClient_def CanvasClient_def optOr_def timeoutOnce_def
      getConfig_def dispatch_def retryStep_def shouldRetry_def transformError_def)

subsection \<open>The retry branch\<close>

text \<open>
  A request whose configuration carries a retry counter does enter the retry branch. If
  no request gets an answer, it is resent until the counter reaches the retry limit of
  the client, each time after the delay computed from the base delay of the client, and
  the typed error with status 0 is raised then.
\<close>

lemma backoffTrace_counter [simp]:
  "backoffTrace (cfg\<lparr>retryCount := x\<rparr>) d c k = backoffTrace cfg d c k"
  by (induction k arbitrary: c) simp_all


subsection \<open>Construction\<close>






subsection \<open>Health check\<close>

text \<open>
  C10, as the claim states it, fails for one outcome of the profile fetch: when the fetch
  succeeds with the body \<^verbatim>\<open>null\<close>, reading \<^verbatim>\<open>user.id\<close> throws inside the
  \<^verbatim>\<open>try\<close> and the status is \<^verbatim>\<open>error\<close>, not \<^verbatim>\<open>ok\<close>.
\<close>

theorem healthCheck_null_profile:
  "getUserProfile (Suc 0) twoRetriesClient nullProfile [] =
     Some (Inr JNull, [Sent (getConfig ''/users/self/profile'')])
   \<and> healthCheck ''2024-05-01T10:00:00.000Z'' (Inr JNull) =
       Inr (JObj [(''status'', JStr ''error''), (''timestamp'', JStr ''2024-05-01T10:00:00.000Z'')])"
  by (simp add: getUserProfile_def nullProfile_def jsonResponse_def dispatch_def healthCheck_def)

text \<open>
  C10, amended: \<^verbatim>\<open>healthCheck\<close> raises nothing. Whatever the profile fetch does, the
  result is an object with the clock reading as \<^verbatim>\<open>timestamp\<close> and a \<^verbatim>\<open>status\<close> of
  \<^verbatim>\<open>ok\<close> or \<^verbatim>\<open>error\<close>. The status is \<^verbatim>\<open>error\<close>, and nothing of the failure is in
  the result, when the fetch fails, and also when it succeeds with \<^verbatim>\<open>null\<close> or
  \<^verbatim>\<open>undefined\<close>. When the fetch succeeds with any other value, the status is
  \<^verbatim>\<open>ok\<close> and \<^verbatim>\<open>user\<close> holds the \<^verbatim>\<open>id\<close> and \<^verbatim>\<open>name\<close> of that value.
\<close>

theorem healthCheck_never_throws:
  "(\<exists>obj. healthCheck now profile = Inr obj
           \<and> getProp ''timestamp'' obj = JStr now
           \<and> (getProp ''status'' obj = JStr ''ok'' \<or> getProp ''status'' obj = JStr ''error''))
   \<and> (profile = Inl f \<longrightarrow>
         healthCheck now profile = Inr (JObj [(''status'', JStr ''error''), (''timestamp'', JStr now)]))
   \<and> (profile = Inr user \<and> nullish user \<longrightarrow>
         healthCheck now profile = Inr (JObj [(''status'', JStr ''error''), (''timestamp'', JStr now)]))
   \<and> (profile = Inr user \<and> \<not> nullish user \<longrightarrow>
         healthCheck now profile =
           Inr (JObj [(''status'', JStr ''ok''), (''timestamp'', JStr now),
                      (''user'', JObj [(''id'', getProp ''id'' user),
                                       (''name'', getProp ''name'' user)])]))"
  by (cases profile) (auto simp: healthCheck_def)

theorem healthCheck_never_throws_witness:
  "(\<exists>tr. getUserProfile (Suc 0) twoRetriesClient networkDown [] =
            Some (Inl (CanvasAPIError ''Network error: timeout of 30000ms exceeded'' 0 JNull), tr))
   \<and> healthCheck ''2024-05-01T10:00:00.000Z''
         (Inl (CanvasAPIError ''Network error: timeout of 30000ms exceeded'' 0 JNull)) =
       Inr (JObj [(''status'', JStr ''error''), (''timestamp'', JStr ''2024-05-01T10:00:00.000Z'')])
   \<and> healthCheck ''2024-05-01T10:00:00.000Z'' (Inr JNull) =
       Inr (JObj [(''status'', JStr ''error''), (''timestamp'', JStr ''2024-05-01T10:00:00.000Z'')])
   \<and> healthCheck ''2024-05-01T10:00:00.000Z''
         (Inr (JObj [(''id'', JNum 7), (''name'', JStr ''Ada''), (''login_id'', JStr ''ada'')])) =
       Inr (JObj [(''status'', JStr ''ok''), (''timestamp'', JStr ''2024-05-01T10:00:00.000Z''),
                  (''user'', JObj [(''id'', JNum 7), (''name'', JStr ''Ada'')])])"
proof -
  let ?f = "CanvasAPIError ''Network error: timeout of 30000ms exceeded'' 0 JNull"
  let ?u = "JObj [(''id'', JNum 7), (''name'', JStr ''Ada''), (''login_id'', JStr ''ada'')]"
  let ?now = "''2024-05-01T10:00:00.000Z''"
  have a: "\<exists>tr. getUserProfile (Suc 0) twoRetriesClient networkDown [] = Some (Inl ?f, tr)"
    by (simp add: getUserProfile_def networkDown_def dispatch_def retryStep_def shouldRetry_def
        getConfig_def transformError_def)
  have b: "healthCheck ?now (Inl ?f) = Inr (JObj [(''status'', JStr ''error''), (''timestamp'', JStr ?now)])"
    using healthCheck_never_throws[where profile="Inl ?f" and f="?f" and now="?now",
        THEN conjunct2, THEN conjunct1, rule_format, OF refl] .
  have hn: "Inr JNull = Inr JNull \<and> nullish JNull" by simp
  have n: "healthCheck ?now (Inr JNull) = Inr (JObj [(''status'', JStr ''error''), (''timestamp'', JStr ?now)])"
    using healthCheck_never_throws[where profile="Inr JNull" and user="JNull" and now="?now",
        THEN conjunct2, THEN conjunct2, THEN conjunct1, rule_format, OF hn] .
  have h: "Inr ?u = Inr ?u \<and> \<not> nullish ?u" by simp
  have c: "healthCheck ?now (Inr ?u) =
       Inr (JObj [(''status'', JStr ''ok''), (''timestamp'', JStr ?now),
                  (''user'', JObj [(''id'', JNum 7), (''name'', JStr ''Ada'')])])"
    using healthCheck_never_throws[where profile="Inr ?u" and user="?u" and now="?now",
        THEN conjunct2, THEN conjunct2, THEN conjunct2, rule_format, OF h]
    by simp
  from a b n c show ?thesis by blast
qed

subsection \<open>Error normalisation\<close>








subsection \<open>Outcome of a logical call\<close>








lemma nextPage_data [simp]: "nextPage (r\<lparr>data := d\<rparr>) = nextPage r"
  by (simp add: nextPage_def)









end
